theory Spec2Isabelle
  imports Complex_Main "HOL-Library.Sublist"
begin

section \<open>The graph store\<close>

text \<open>
  The program (\<^verbatim>\<open>model_optimised.py\<close>) talks to a Neo4j store through Cypher queries.
  The store is modelled as the property graph those queries range over: a list of
  nodes (a node's identity is its position), the undirected \<^verbatim>\<open>RELATIONSHIP\<close> edges and
  the directed \<^verbatim>\<open>SIMILAR_TO\<close> edges with their \<^verbatim>\<open>similarity\<close> property.
  Python floats are idealised as real numbers (rounding is not modelled), Python
  strings as lists of characters, a character being a code point below 256.
  The store does not enforce unique names, so the model does not either.
\<close>

datatype label = SubjectNode | ObjectNode

record node =
  label :: label
  name :: string
  community :: "int option"

record similar_to =
  r_start :: nat
  r_end :: nat
  r_similarity :: real

record graph =
  nodes :: "node list"
  relationship :: "(nat \<times> nat) list"
  similar_to_edges :: "similar_to list"

text \<open>
  A transaction \<^verbatim>\<open>tx\<close> is the store together with the trace of the queries run
  on it: every \<^verbatim>\<open>tx.run\<close> of the source appends one entry, named after the
  function that issues it and carrying the query parameters.
\<close>

datatype call =
    Get_community_members int
  | Get_node_community string
  | Create_similarity_relationship string string real
  | Get_cached_similarity string string
  | Get_node_neighbors string
  | Get_intermediate_similarities string "string list"
  | Check_node_exists string label

record tx =
  store :: graph
  calls :: "call list"

definition run :: "tx \<Rightarrow> call \<Rightarrow> tx" where
  "run t c = t\<lparr>calls := calls t @ [c]\<rparr>"

text \<open>The node patterns \<^verbatim>\<open>(n:SubjectNode {name: $t})\<close> and \<^verbatim>\<open>(obj:ObjectNode)\<close>.\<close>

definition is_subject :: "graph \<Rightarrow> nat \<Rightarrow> string \<Rightarrow> bool" where
  "is_subject g i t \<longleftrightarrow>
     i < length (nodes g) \<and> label (nodes g ! i) = SubjectNode \<and> name (nodes g ! i) = t"

definition is_object :: "graph \<Rightarrow> nat \<Rightarrow> bool" where
  "is_object g i \<longleftrightarrow> i < length (nodes g) \<and> label (nodes g ! i) = ObjectNode"

definition subject_ids :: "graph \<Rightarrow> string \<Rightarrow> nat list" where
  "subject_ids g t = filter (\<lambda>i. is_subject g i t) [0..<length (nodes g)]"

text \<open>
  \<^verbatim>\<open>result.single()\<close> yields the first record of a result, or \<^verbatim>\<open>None\<close> when
  there is none (the driver only warns when more records follow).
\<close>

definition single :: "'a list \<Rightarrow> 'a option" where
  "single rs = (case rs of [] \<Rightarrow> None | r # _ \<Rightarrow> Some r)"

subsection \<open>Community index\<close>

text \<open>
  Each function of the source that runs a query is modelled in two layers: the rows
  the query returns on a store, and the function itself, which returns what the
  source builds from the rows and records the query in the trace.
\<close>

definition members_rows :: "graph \<Rightarrow> int \<Rightarrow> string list" where
  "members_rows g community_id =
     [name n. n \<leftarrow> nodes g, label n = SubjectNode \<and> community n = Some community_id]"

definition get_community_members :: "tx \<Rightarrow> int \<Rightarrow> string list \<times> tx" where
  "get_community_members t community_id =
     (members_rows (store t) community_id, run t (Get_community_members community_id))"

definition community_rows :: "graph \<Rightarrow> string \<Rightarrow> int option list" where
  "community_rows g trial_id =
     [community n. n \<leftarrow> nodes g, label n = SubjectNode \<and> name n = trial_id]"

definition get_node_community :: "tx \<Rightarrow> string \<Rightarrow> int option \<times> tx" where
  "get_node_community t trial_id =
     ((case single (community_rows (store t) trial_id) of None \<Rightarrow> None | Some c \<Rightarrow> c),
      run t (Get_node_community trial_id))"

subsection \<open>Similarity cache\<close>

text \<open>The two nodes a \<^verbatim>\<open>SIMILAR_TO\<close> edge runs between.\<close>

abbreviation (input) ends :: "similar_to \<Rightarrow> nat \<times> nat" where
  "ends e \<equiv> (r_start e, r_end e)"

text \<open>
  \<^verbatim>\<open>MERGE (n1)-[r:SIMILAR_TO]->(n2) SET r.similarity = $similarity\<close> for one bound
  pair of nodes: every existing edge from \<open>i\<close> to \<open>j\<close> is matched and gets the score;
  when there is none, one is created with it.
\<close>

definition merge_set :: "similar_to list \<Rightarrow> nat \<Rightarrow> nat \<Rightarrow> real \<Rightarrow> similar_to list" where
  "merge_set es i j s =
     (if \<exists>e \<in> set es. r_start e = i \<and> r_end e = j
      then map (\<lambda>e. if r_start e = i \<and> r_end e = j then e\<lparr>r_similarity := s\<rparr> else e) es
      else es @ [\<lparr>r_start = i, r_end = j, r_similarity = s\<rparr>])"

text \<open>
  The write query. Its \<^verbatim>\<open>MATCH\<close> binds every pair of a node named \<open>trial1\<close> and a
  node named \<open>trial2\<close>; the two \<^verbatim>\<open>MERGE\<close>/\<^verbatim>\<open>SET\<close> clauses run once per bound pair.
  When either name matches no node there is no pair and nothing is written; the
  source inspects no result and raises nothing.
\<close>

definition write_pair :: "real \<Rightarrow> nat \<times> nat \<Rightarrow> similar_to list \<Rightarrow> similar_to list" where
  "write_pair s p es = merge_set (merge_set es (fst p) (snd p) s) (snd p) (fst p) s"

definition create_similarity_relationship :: "tx \<Rightarrow> string \<Rightarrow> string \<Rightarrow> real \<Rightarrow> tx" where
  "create_similarity_relationship t trial1 trial2 s =
     run (t\<lparr>store := (store t)\<lparr>similar_to_edges :=
            fold (write_pair s)
              (List.product (subject_ids (store t) trial1) (subject_ids (store t) trial2))
              (similar_to_edges (store t))\<rparr>\<rparr>)
         (Create_similarity_relationship trial1 trial2 s)"

definition cached_rows :: "graph \<Rightarrow> string \<Rightarrow> string \<Rightarrow> real list" where
  "cached_rows g trial1 trial2 =
     [r_similarity r. r \<leftarrow> similar_to_edges g,
        is_subject g (r_start r) trial1 \<and> is_subject g (r_end r) trial2]"

definition get_cached_similarity :: "tx \<Rightarrow> string \<Rightarrow> string \<Rightarrow> real option \<times> tx" where
  "get_cached_similarity t trial1 trial2 =
     (single (cached_rows (store t) trial1 trial2), run t (Get_cached_similarity trial1 trial2))"

subsection \<open>Neighbours and precomputed similarities\<close>

definition neighbor_rows :: "graph \<Rightarrow> string \<Rightarrow> string list" where
  "neighbor_rows g trial_id =
     [name (nodes g ! ob).
        (i, j) \<leftarrow> relationship g, (sb, ob) \<leftarrow> [(i, j), (j, i)],
        is_subject g sb trial_id \<and> is_object g ob]"

definition get_node_neighbors :: "tx \<Rightarrow> string \<Rightarrow> string set \<times> tx" where
  "get_node_neighbors t trial_id =
     (set (neighbor_rows (store t) trial_id), run t (Get_node_neighbors trial_id))"

text \<open>
  The dictionary comprehension of \<^verbatim>\<open>get_intermediate_similarities\<close> keeps, for a
  key that occurs in several records, the value of the last one.
\<close>

definition intermediate_rows :: "graph \<Rightarrow> string \<Rightarrow> string list \<Rightarrow> (string \<times> real) list" where
  "intermediate_rows g trial_id community_members =
     [(name (nodes g ! r_end r), r_similarity r).
        r \<leftarrow> similar_to_edges g,
        is_subject g (r_start r) trial_id
        \<and> r_end r < length (nodes g)
        \<and> label (nodes g ! r_end r) = SubjectNode
        \<and> name (nodes g ! r_end r) \<in> set community_members]"

definition get_intermediate_similarities ::
    "tx \<Rightarrow> string \<Rightarrow> string list \<Rightarrow> (string \<rightharpoonup> real) \<times> tx" where
  "get_intermediate_similarities t trial_id community_members =
     (map_of (rev (intermediate_rows (store t) trial_id community_members)),
      run t (Get_intermediate_similarities trial_id community_members))"

section \<open>Similarity scorer\<close>

text \<open>The body of the loop over \<^verbatim>\<open>community_members\<close> (lines 121 to 133).\<close>

definition boost_step ::
    "string \<Rightarrow> string \<Rightarrow> (string \<rightharpoonup> real) \<Rightarrow> string \<Rightarrow> real \<times> tx \<Rightarrow> real \<times> tx" where
  "boost_step trial1 trial2 intermediate_sims intermediate_trial acc =
     (case acc of (boost_factor, t) \<Rightarrow>
        if intermediate_trial \<in> set [trial1, trial2] then (boost_factor, t)
        else
          (case (case intermediate_sims intermediate_trial of
                   Some v \<Rightarrow> (Some v, t)
                 | None \<Rightarrow> get_cached_similarity t trial1 intermediate_trial) of
             (None, t1) \<Rightarrow> (boost_factor, t1)
           | (Some sim_to_intermediate, t1) \<Rightarrow>
               (case get_cached_similarity t1 trial2 intermediate_trial of
                  (None, t2) \<Rightarrow> (boost_factor, t2)
                | (Some other_sim, t2) \<Rightarrow>
                    (boost_factor + min sim_to_intermediate other_sim * (1 / 10), t2))))"

fun boost_loop ::
    "string \<Rightarrow> string \<Rightarrow> (string \<rightharpoonup> real) \<Rightarrow> string list \<Rightarrow> real \<times> tx \<Rightarrow> real \<times> tx" where
  "boost_loop trial1 trial2 intermediate_sims [] acc = acc"
| "boost_loop trial1 trial2 intermediate_sims (m # ms) acc =
     boost_loop trial1 trial2 intermediate_sims ms
       (boost_step trial1 trial2 intermediate_sims m acc)"

definition compute_optimized_jaccard ::
    "tx \<Rightarrow> string \<Rightarrow> string \<Rightarrow> string list \<Rightarrow> (string \<rightharpoonup> real) \<Rightarrow> real \<times> tx" where
  "compute_optimized_jaccard t trial1 trial2 community_members intermediate_sims =
     (case get_cached_similarity t trial1 trial2 of
        (Some cached_sim, t1) \<Rightarrow> (cached_sim, t1)
      | (None, t1) \<Rightarrow>
          (case get_node_neighbors t1 trial1 of (neighbors1, t2) \<Rightarrow>
           case get_node_neighbors t2 trial2 of (neighbors2, t3) \<Rightarrow>
           case (if card (neighbors1 \<union> neighbors2) = 0 then (0, t3)
                 else
                   (case boost_loop trial1 trial2 intermediate_sims community_members (0, t3) of
                      (boost_factor, t4) \<Rightarrow>
                        (min 1 (real (card (neighbors1 \<inter> neighbors2))
                                  / real (card (neighbors1 \<union> neighbors2)) + boost_factor),
                         t4))) of
             (sim, t5) \<Rightarrow> (sim, create_similarity_relationship t5 trial1 trial2 sim)))"

subsection \<open>The boost term as the specification words it\<close>

text \<open>
  The similarity of the first entity to a member \<open>m\<close> is taken from the caller's
  precomputed map when \<open>m\<close> is a key of it, and from a cache-only lookup otherwise;
  that of the second entity always from a cache-only lookup. The boost is the sum,
  over the members other than the two entities for which both are available, of
  the smaller of the two times 0.1.
\<close>

definition sim_to_first :: "tx \<Rightarrow> string \<Rightarrow> (string \<rightharpoonup> real) \<Rightarrow> string \<Rightarrow> real option" where
  "sim_to_first t a sims m =
     (case sims m of Some v \<Rightarrow> Some v | None \<Rightarrow> fst (get_cached_similarity t a m))"

definition boost_sum :: "tx \<Rightarrow> string \<Rightarrow> string \<Rightarrow> string list \<Rightarrow> (string \<rightharpoonup> real) \<Rightarrow> real" where
  "boost_sum t a b members sims =
     (\<Sum>m \<leftarrow> [m \<leftarrow> members. m \<noteq> a \<and> m \<noteq> b \<and> sim_to_first t a sims m \<noteq> None
                              \<and> fst (get_cached_similarity t b m) \<noteq> None].
        min (the (sim_to_first t a sims m)) (the (fst (get_cached_similarity t b m))) * (1 / 10))"

text \<open>The data-model invariant on cached scores.\<close>

definition scores_bounded :: "graph \<Rightarrow> bool" where
  "scores_bounded g \<longleftrightarrow>
     (\<forall>e \<in> set (similar_to_edges g). 0 \<le> r_similarity e \<and> r_similarity e \<le> 1)"

section \<open>Top-k ranker\<close>

record scored =
  trial :: string
  similarity :: real

text \<open>
  \<^verbatim>\<open>list.sort(key=..., reverse=True)\<close> is a stable sort into descending key order:
  entries with equal keys keep their relative order. A slice \<^verbatim>\<open>xs[:k]\<close> with a
  negative \<open>k\<close> drops the last \<open>-k\<close> entries.
\<close>

definition sort_reverse :: "scored list \<Rightarrow> scored list" where
  "sort_reverse xs = sort_key (\<lambda>x. - similarity x) xs"

definition slice_to :: "int \<Rightarrow> 'a list \<Rightarrow> 'a list" where
  "slice_to k xs = (if 0 \<le> k then take (nat k) xs else take (length xs - nat (- k)) xs)"

text \<open>Lines 145 to 147: the members of the community, without the query entity.\<close>

definition candidate_members :: "tx \<Rightarrow> int \<Rightarrow> string \<Rightarrow> string list \<times> tx" where
  "candidate_members t community_id trial_id =
     (case get_community_members t community_id of
        (community_members, t1) \<Rightarrow>
          (if trial_id \<in> set community_members then remove1 trial_id community_members
           else community_members, t1))"

text \<open>The loop of lines 153 to 155, over the remaining members \<open>rest\<close>.\<close>

fun score_members ::
    "string \<Rightarrow> string list \<Rightarrow> (string \<rightharpoonup> real) \<Rightarrow> string list \<Rightarrow> scored list \<times> tx
     \<Rightarrow> scored list \<times> tx" where
  "score_members trial_id community_members intermediate_sims [] acc = acc"
| "score_members trial_id community_members intermediate_sims (other_trial # rest) acc =
     (case acc of (similarities, t) \<Rightarrow>
        case compute_optimized_jaccard t trial_id other_trial community_members intermediate_sims of
          (sim, t1) \<Rightarrow>
            score_members trial_id community_members intermediate_sims rest
              (similarities @ [\<lparr>trial = other_trial, similarity = sim\<rparr>], t1))"

definition find_similar_trials_optimized :: "tx \<Rightarrow> string \<Rightarrow> int \<Rightarrow> scored list \<times> tx" where
  "find_similar_trials_optimized t trial_id top_k =
     (case get_node_community t trial_id of
        (None, t1) \<Rightarrow> ([], t1)
      | (Some community_id, t1) \<Rightarrow>
          (case candidate_members t1 community_id trial_id of (community_members, t2) \<Rightarrow>
           case get_intermediate_similarities t2 trial_id community_members of
             (intermediate_sims, t3) \<Rightarrow>
           case score_members trial_id community_members intermediate_sims community_members
                  ([], t3) of
             (similarities, t4) \<Rightarrow> (slice_to top_k (sort_reverse similarities), t4)))"


section \<open>Existence check and the query of \<^verbatim>\<open>main\<close>\<close>

text \<open>
  \<^verbatim>\<open>str.strip()\<close> removes the characters for which \<^verbatim>\<open>str.isspace()\<close> holds from
  both ends; Cypher's \<^verbatim>\<open>TRIM\<close> does the same for the characters Java calls
  whitespace, which leaves out U+0085 and U+00A0.
\<close>

definition isspace :: "char \<Rightarrow> bool" where
  "isspace c \<longleftrightarrow> (of_char c :: nat) \<in> set [9, 10, 11, 12, 13, 28, 29, 30, 31, 32, 133, 160]"

definition isWhitespace :: "char \<Rightarrow> bool" where
  "isWhitespace c \<longleftrightarrow> (of_char c :: nat) \<in> set [9, 10, 11, 12, 13, 28, 29, 30, 31, 32]"

definition strip :: "string \<Rightarrow> string" where
  "strip s = rev (dropWhile isspace (rev (dropWhile isspace s)))"

definition TRIM :: "string \<Rightarrow> string" where
  "TRIM s = rev (dropWhile isWhitespace (rev (dropWhile isWhitespace s)))"

definition exists_rows :: "graph \<Rightarrow> string \<Rightarrow> label \<Rightarrow> node list" where
  "exists_rows g node_name lbl = [n. n \<leftarrow> nodes g, label n = lbl \<and> name n = TRIM node_name]"

definition check_node_exists :: "tx \<Rightarrow> string \<Rightarrow> label \<Rightarrow> bool \<times> tx" where
  "check_node_exists t node_name lbl =
     (0 < length (exists_rows (store t) (strip node_name) lbl),
      run t (Check_node_exists (strip node_name) lbl))"

text \<open>
  Lines 184 to 199 of \<^verbatim>\<open>main\<close>, on the store as projection and clustering left it:
  the identifier read from the console, the existence check, the query with the
  default \<open>top_k\<close>, and what is printed.
\<close>

datatype printed =
    Node_does_not_exist string
  | Top_similar_trials "scored list"
  | No_similar_trials_found

definition main :: "tx \<Rightarrow> string \<Rightarrow> printed \<times> tx" where
  "main t trial_id =
     (case check_node_exists t trial_id SubjectNode of
        (node_exists, t1) \<Rightarrow>
          if \<not> node_exists then (Node_does_not_exist trial_id, t1)
          else
            (case find_similar_trials_optimized t1 trial_id 10 of
               (similar_trials, t2) \<Rightarrow>
                 (if similar_trials \<noteq> [] then Top_similar_trials similar_trials
                  else No_similar_trials_found, t2)))"

section \<open>Example stores\<close>

text \<open>
  The scenario of the specification: subjects \<open>A\<close>, \<open>B\<close> and \<open>C\<close> in community 1, with
  neighbours \<open>{x, y}\<close>, \<open>{y, z}\<close> and none; no similarity is cached yet.
\<close>

definition cold_store :: graph where
  "cold_store =
     \<lparr>nodes = [\<lparr>label = SubjectNode, name = ''A'', community = Some 1\<rparr>,
               \<lparr>label = SubjectNode, name = ''B'', community = Some 1\<rparr>,
               \<lparr>label = SubjectNode, name = ''C'', community = Some 1\<rparr>,
               \<lparr>label = ObjectNode, name = ''x'', community = None\<rparr>,
               \<lparr>label = ObjectNode, name = ''y'', community = None\<rparr>,
               \<lparr>label = ObjectNode, name = ''z'', community = None\<rparr>],
      relationship = [(0, 3), (0, 4), (1, 4), (5, 1)],
      similar_to_edges = []\<rparr>"

definition cold_tx :: tx where
  "cold_tx = \<lparr>store = cold_store, calls = []\<rparr>"

text \<open>The same store once the pair \<open>(A, B)\<close> has been scored.\<close>

definition warm_store :: graph where
  "warm_store =
     cold_store\<lparr>similar_to_edges :=
       [\<lparr>r_start = 0, r_end = 1, r_similarity = 1 / 3\<rparr>,
        \<lparr>r_start = 1, r_end = 0, r_similarity = 1 / 3\<rparr>]\<rparr>"

definition warm_tx :: tx where
  "warm_tx = \<lparr>store = warm_store, calls = []\<rparr>"

text \<open>
  A store where the pair \<open>(A, B)\<close> is not cached yet while both entities already have
  a cached similarity to the member \<open>M\<close>.
\<close>

definition boost_store :: graph where
  "boost_store =
     \<lparr>nodes = [\<lparr>label = SubjectNode, name = ''A'', community = Some 1\<rparr>,
               \<lparr>label = SubjectNode, name = ''B'', community = Some 1\<rparr>,
               \<lparr>label = SubjectNode, name = ''M'', community = Some 1\<rparr>,
               \<lparr>label = ObjectNode, name = ''x'', community = None\<rparr>,
               \<lparr>label = ObjectNode, name = ''y'', community = None\<rparr>,
               \<lparr>label = ObjectNode, name = ''z'', community = None\<rparr>],
      relationship = [(0, 3), (0, 4), (1, 4), (5, 1)],
      similar_to_edges =
        [\<lparr>r_start = 0, r_end = 2, r_similarity = 1 / 2\<rparr>,
         \<lparr>r_start = 2, r_end = 0, r_similarity = 1 / 2\<rparr>,
         \<lparr>r_start = 1, r_end = 2, r_similarity = 3 / 10\<rparr>,
         \<lparr>r_start = 2, r_end = 1, r_similarity = 3 / 10\<rparr>]\<rparr>"

definition boost_tx :: tx where
  "boost_tx = \<lparr>store = boost_store, calls = []\<rparr>"

text \<open>
  A store without any neighbour: \<open>C\<close> and \<open>D\<close> both have a cached similarity to \<open>M\<close>,
  and \<open>E\<close> has not been assigned a community.
\<close>

definition bare_store :: graph where
  "bare_store =
     \<lparr>nodes = [\<lparr>label = SubjectNode, name = ''C'', community = Some 2\<rparr>,
               \<lparr>label = SubjectNode, name = ''D'', community = Some 2\<rparr>,
               \<lparr>label = SubjectNode, name = ''M'', community = Some 2\<rparr>,
               \<lparr>label = SubjectNode, name = ''E'', community = None\<rparr>],
      relationship = [],
      similar_to_edges =
        [\<lparr>r_start = 0, r_end = 2, r_similarity = 1 / 2\<rparr>,
         \<lparr>r_start = 2, r_end = 0, r_similarity = 1 / 2\<rparr>,
         \<lparr>r_start = 1, r_end = 2, r_similarity = 1 / 2\<rparr>,
         \<lparr>r_start = 2, r_end = 1, r_similarity = 1 / 2\<rparr>]\<rparr>"

definition bare_tx :: tx where
  "bare_tx = \<lparr>store = bare_store, calls = []\<rparr>"

text \<open>
  A store where an identifier and a padded form of it both name a subject, and
  where another subject exists only under a padded name.
\<close>

definition padded_store :: graph where
  "padded_store =
     \<lparr>nodes = [\<lparr>label = SubjectNode, name = ''T1'', community = Some 1\<rparr>,
               \<lparr>label = SubjectNode, name = '' T1'', community = Some 1\<rparr>,
               \<lparr>label = SubjectNode, name = '' T2'', community = Some 1\<rparr>],
      relationship = [],
      similar_to_edges = []\<rparr>"

definition padded_tx :: tx where
  "padded_tx = \<lparr>store = padded_store, calls = []\<rparr>"

section \<open>Reading leaves the store alone\<close>

lemma run_simps: "store (run t c) = store t" "calls (run t c) = calls t @ [c]"
  by (simp_all add: run_def)

lemmas example_defs =
  cold_tx_def cold_store_def warm_tx_def warm_store_def boost_tx_def boost_store_def
  bare_tx_def bare_store_def padded_tx_def padded_store_def

lemmas query_defs =
  get_community_members_def members_rows_def get_node_community_def community_rows_def
  get_cached_similarity_def cached_rows_def get_node_neighbors_def neighbor_rows_def
  get_intermediate_similarities_def intermediate_rows_def single_def
  is_subject_def is_object_def subject_ids_def run_def

section \<open>The cache write\<close>

lemma merge_set_ends:
  "ends ` set (merge_set es i j s) = insert (i, j) (ends ` set es)"
proof (cases "\<exists>e \<in> set es. r_start e = i \<and> r_end e = j")
  case True
  define upd :: "similar_to \<Rightarrow> similar_to" where
    "upd = (\<lambda>e. if r_start e = i \<and> r_end e = j then e\<lparr>r_similarity := s\<rparr> else e)"
  have "set (merge_set es i j s) = upd ` set es"
    using True by (simp add: merge_set_def upd_def)
  then have "ends ` set (merge_set es i j s) = (\<lambda>e. ends (upd e)) ` set es"
    by (simp only: image_image)
  also have "\<dots> = ends ` set es"
    by (rule image_cong) (auto simp: upd_def)
  also have "\<dots> = insert (i, j) (ends ` set es)"
  proof -
    have "(i, j) \<in> ends ` set es"
      using True by force
    then show ?thesis
      by (rule insert_absorb [symmetric])
  qed
  finally show ?thesis .
next
  case False
  then have "merge_set es i j s = es @ [\<lparr>r_start = i, r_end = j, r_similarity = s\<rparr>]"
    unfolding merge_set_def by (rule if_not_P)
  then show ?thesis by simp
qed

lemma merge_set_scores:
  assumes "\<forall>e \<in> set es. ends e \<in> K \<longrightarrow> r_similarity e = s"
  shows "\<forall>e \<in> set (merge_set es i j s). ends e \<in> insert (i, j) K \<longrightarrow> r_similarity e = s"
  using assms by (auto simp: merge_set_def split: if_splits)

lemma merge_set_old_or_new:
  "e \<in> set (merge_set es i j s) \<Longrightarrow> r_similarity e = s \<or> e \<in> set es"
  by (auto simp: merge_set_def split: if_splits)

lemma write_pair_ends:
  "ends ` set (write_pair s p es) = insert p (insert (prod.swap p) (ends ` set es))"
  by (cases p) (auto simp: write_pair_def merge_set_ends)

lemma write_pair_scores:
  assumes "\<forall>e \<in> set es. ends e \<in> K \<longrightarrow> r_similarity e = s"
  shows "\<forall>e \<in> set (write_pair s p es).
           ends e \<in> insert p (insert (prod.swap p) K) \<longrightarrow> r_similarity e = s"
proof -
  obtain i j where p: "p = (i, j)" by (cases p)
  have "\<forall>e \<in> set (merge_set es i j s). ends e \<in> insert (i, j) K \<longrightarrow> r_similarity e = s"
    by (rule merge_set_scores [OF assms])
  then have "\<forall>e \<in> set (merge_set (merge_set es i j s) j i s).
      ends e \<in> insert (j, i) (insert (i, j) K) \<longrightarrow> r_similarity e = s"
    by (rule merge_set_scores)
  then show ?thesis by (simp add: p write_pair_def insert_commute)
qed

lemma write_pair_old_or_new:
  "e \<in> set (write_pair s p es) \<Longrightarrow> r_similarity e = s \<or> e \<in> set es"
  unfolding write_pair_def by (blast dest: merge_set_old_or_new)

lemma fold_write_pair_ends:
  "ends ` set (fold (write_pair s) ps es) = set ps \<union> prod.swap ` set ps \<union> ends ` set es"
  by (induction ps arbitrary: es) (auto simp: write_pair_ends)

lemma fold_write_pair_scores:
  assumes "\<forall>e \<in> set es. ends e \<in> K \<longrightarrow> r_similarity e = s"
  shows "\<forall>e \<in> set (fold (write_pair s) ps es).
           ends e \<in> set ps \<union> prod.swap ` set ps \<union> K \<longrightarrow> r_similarity e = s"
  using assms
proof (induction ps arbitrary: es K)
  case Nil
  then show ?case by simp
next
  case (Cons p ps)
  have "\<forall>e \<in> set (write_pair s p es).
          ends e \<in> insert p (insert (prod.swap p) K) \<longrightarrow> r_similarity e = s"
    by (rule write_pair_scores [OF Cons.prems])
  from Cons.IH [OF this] show ?case
    by auto
qed

lemma fold_write_pair_old_or_new:
  "e \<in> set (fold (write_pair s) ps es) \<Longrightarrow> r_similarity e = s \<or> e \<in> set es"
  by (induction ps arbitrary: es) (auto dest: write_pair_old_or_new)

lemma is_subject_edges [simp]:
  "is_subject (g\<lparr>similar_to_edges := es\<rparr>) i t = is_subject g i t"
  by (simp add: is_subject_def)

lemma subject_ids_edges [simp]:
  "subject_ids (g\<lparr>similar_to_edges := es\<rparr>) t = subject_ids g t"
  by (simp add: subject_ids_def)

lemma set_subject_ids: "set (subject_ids g t) = {i. is_subject g i t}"
  by (auto simp: subject_ids_def is_subject_def)

lemma product_subject_ids:
  "set (List.product (subject_ids g a) (subject_ids g b))
     = {i. is_subject g i a} \<times> {j. is_subject g j b}"
  by (simp add: set_subject_ids)

lemma product_no_rows: "xs = [] \<or> ys = [] \<Longrightarrow> List.product xs ys = []"
  by (induction xs) auto

lemma single_all_equal:
  assumes "xs \<noteq> []" and "\<forall>x \<in> set xs. x = s"
  shows "single xs = Some s"
  using assms by (cases xs) (simp_all add: single_def)

lemma cached_rows_after_write:
  assumes ps: "set ps = {i. is_subject g i a} \<times> {j. is_subject g j b}"
    and ne: "ps \<noteq> []"
  shows "single (cached_rows (g\<lparr>similar_to_edges := fold (write_pair s) ps (similar_to_edges g)\<rparr>) a b)
           = Some s"
    and "single (cached_rows (g\<lparr>similar_to_edges := fold (write_pair s) ps (similar_to_edges g)\<rparr>) b a)
           = Some s"
proof -
  let ?es = "fold (write_pair s) ps (similar_to_edges g)"
  have scores: "\<forall>e \<in> set ?es. ends e \<in> set ps \<union> prod.swap ` set ps \<union> {} \<longrightarrow> r_similarity e = s"
    by (rule fold_write_pair_scores) simp
  have keys: "ends ` set ?es = set ps \<union> prod.swap ` set ps \<union> ends ` set (similar_to_edges g)"
    by (rule fold_write_pair_ends)
  obtain i j where ij: "(i, j) \<in> set ps"
    using ne by (cases ps) auto
  then have sub: "is_subject g i a" "is_subject g j b"
    using ps by auto
  from ij keys obtain e1 where e1: "e1 \<in> set ?es" "ends e1 = (i, j)"
    by (metis (no_types, lifting) UnCI imageE)
  from ij keys have "(j, i) \<in> ends ` set ?es"
    by force
  then obtain e2 where e2: "e2 \<in> set ?es" "ends e2 = (j, i)"
    by (metis (no_types, lifting) imageE)
  show "single (cached_rows (g\<lparr>similar_to_edges := ?es\<rparr>) a b) = Some s"
  proof (rule single_all_equal)
    show "cached_rows (g\<lparr>similar_to_edges := ?es\<rparr>) a b \<noteq> []"
      using e1 sub by (auto simp: cached_rows_def filter_empty_conv)
    show "\<forall>x \<in> set (cached_rows (g\<lparr>similar_to_edges := ?es\<rparr>) a b). x = s"
      using scores ps by (auto simp: cached_rows_def)
  qed
  show "single (cached_rows (g\<lparr>similar_to_edges := ?es\<rparr>) b a) = Some s"
  proof (rule single_all_equal)
    show "cached_rows (g\<lparr>similar_to_edges := ?es\<rparr>) b a \<noteq> []"
      using e2 sub by (auto simp: cached_rows_def filter_empty_conv)
    show "\<forall>x \<in> set (cached_rows (g\<lparr>similar_to_edges := ?es\<rparr>) b a). x = s"
      using scores ps by (auto simp: cached_rows_def)
  qed
qed

lemma cached_after_create:
  assumes "subject_ids (store t) a \<noteq> []" and "subject_ids (store t) b \<noteq> []"
  shows "single (cached_rows (store (create_similarity_relationship t a b s)) a b) = Some s"
    and "single (cached_rows (store (create_similarity_relationship t a b s)) b a) = Some s"
proof -
  let ?ps = "List.product (subject_ids (store t) a) (subject_ids (store t) b)"
  have ne: "?ps \<noteq> []"
    using assms by (cases "subject_ids (store t) a"; cases "subject_ids (store t) b") simp_all
  show "single (cached_rows (store (create_similarity_relationship t a b s)) a b) = Some s"
    using cached_rows_after_write(1) [OF product_subject_ids ne, of s]
    by (simp add: create_similarity_relationship_def run_simps)
  show "single (cached_rows (store (create_similarity_relationship t a b s)) b a) = Some s"
    using cached_rows_after_write(2) [OF product_subject_ids ne, of s]
    by (simp add: create_similarity_relationship_def run_simps)
qed

text \<open>
  C3. Every cache write is symmetric: once \<^verbatim>\<open>create_similarity_relationship(a, b, s)\<close>
  has written a score for the pair, that is, once its \<^verbatim>\<open>MATCH\<close> has found a subject
  node for each of the two names, the cache lookup answers \<open>s\<close> in both directions,
  whatever edges the store held before.
\<close>

theorem write_is_symmetric:
  assumes "subject_ids (store t) a \<noteq> []" and "subject_ids (store t) b \<noteq> []"
  shows "fst (get_cached_similarity (create_similarity_relationship t a b s) a b) = Some s
       \<and> fst (get_cached_similarity (create_similarity_relationship t a b s) b a) = Some s"
  using cached_after_create [OF assms, of s] by (simp add: get_cached_similarity_def)

theorem write_is_symmetric_witness:
  "subject_ids (store cold_tx) ''A'' \<noteq> [] \<and> subject_ids (store cold_tx) ''C'' \<noteq> []
   \<and> fst (get_cached_similarity (create_similarity_relationship cold_tx ''A'' ''C'' (1 / 4))
            ''A'' ''C'') = Some (1 / 4)
   \<and> fst (get_cached_similarity (create_similarity_relationship cold_tx ''A'' ''C'' (1 / 4))
            ''C'' ''A'') = Some (1 / 4)"
proof -
  have a: "subject_ids (store cold_tx) ''A'' \<noteq> []"
    by (simp add: example_defs query_defs)
  have c: "subject_ids (store cold_tx) ''C'' \<noteq> []"
    by (simp add: example_defs query_defs)
  show ?thesis
    using a c write_is_symmetric [OF a c, of "1 / 4"] by simp
qed

text \<open>
  C8, as the code has it. The claim asks for an entity-missing failure when an
  endpoint does not exist. The write query reports nothing: when either name
  matches no subject node, the call returns normally, the store is left as it was
  and only the trace records the query.
\<close>

theorem write_without_endpoint_is_noop:
  assumes "subject_ids (store t) a = [] \<or> subject_ids (store t) b = []"
  shows "create_similarity_relationship t a b s
         = t\<lparr>calls := calls t @ [Create_similarity_relationship a b s]\<rparr>"
  by (simp add: create_similarity_relationship_def run_def product_no_rows [OF assms])

theorem write_without_endpoint_is_noop_witness:
  "(subject_ids (store cold_tx) ''A'' = [] \<or> subject_ids (store cold_tx) ''NCT_NOPE'' = [])
   \<and> create_similarity_relationship cold_tx ''A'' ''NCT_NOPE'' (1 / 2)
       = cold_tx\<lparr>calls := calls cold_tx @ [Create_similarity_relationship ''A'' ''NCT_NOPE'' (1 / 2)]\<rparr>"
proof -
  have h: "subject_ids (store cold_tx) ''A'' = [] \<or> subject_ids (store cold_tx) ''NCT_NOPE'' = []"
    by (simp add: example_defs query_defs)
  show ?thesis
    using h write_without_endpoint_is_noop [OF h, of "1 / 2"] by simp
qed

text \<open>
  The claim C8 fails on the scenario store: \<open>NCT_NOPE\<close> names no subject node, yet the
  write of the pair \<open>(A, NCT_NOPE)\<close> completes, writes nothing, and the pair stays a
  plain cache miss.
\<close>

theorem write_reports_no_missing_entity:
  "subject_ids (store cold_tx) ''NCT_NOPE'' = []
   \<and> store (create_similarity_relationship cold_tx ''A'' ''NCT_NOPE'' (1 / 2)) = store cold_tx
   \<and> fst (get_cached_similarity (create_similarity_relationship cold_tx ''A'' ''NCT_NOPE'' (1 / 2))
            ''A'' ''NCT_NOPE'') = None"
  by (simp add: example_defs query_defs create_similarity_relationship_def)

section \<open>The scorer\<close>

lemma get_cached_similarity_run [simp]:
  "fst (get_cached_similarity (run t c) a b) = fst (get_cached_similarity t a b)"
  by (simp add: get_cached_similarity_def run_simps)

lemma get_node_neighbors_run [simp]:
  "fst (get_node_neighbors (run t c) a) = fst (get_node_neighbors t a)"
  by (simp add: get_node_neighbors_def run_simps)

text \<open>
  C2. When the cache holds a value for the pair, the scorer returns it unchanged.
  The store is untouched and the only query the call runs is the cache lookup
  itself: no neighbour lookup, no boost lookup and no write.
\<close>

theorem cache_hit_is_authoritative:
  assumes "fst (get_cached_similarity t trial1 trial2) = Some v"
  shows "compute_optimized_jaccard t trial1 trial2 community_members intermediate_sims
         = (v, t\<lparr>calls := calls t @ [Get_cached_similarity trial1 trial2]\<rparr>)"
  using assms by (simp add: compute_optimized_jaccard_def get_cached_similarity_def run_def)

theorem cache_hit_is_authoritative_witness:
  "fst (get_cached_similarity warm_tx ''A'' ''B'') = Some (1 / 3)
   \<and> compute_optimized_jaccard warm_tx ''A'' ''B'' [''B'', ''C''] Map.empty
       = (1 / 3, warm_tx\<lparr>calls := calls warm_tx @ [Get_cached_similarity ''A'' ''B'']\<rparr>)"
proof -
  have h: "fst (get_cached_similarity warm_tx ''A'' ''B'') = Some (1 / 3)"
    by (simp add: example_defs query_defs)
  show ?thesis
    using h cache_hit_is_authoritative [OF h, of "[''B'', ''C'']" Map.empty] by simp
qed

text \<open>
  C5. On a cache miss for a pair whose neighbour sets are both empty the score is
  exactly 0: the call returns it (the source has no raise on this path), runs no
  query for the boost term, and writes 0 for the pair.
\<close>

theorem empty_union_scores_zero:
  assumes "fst (get_cached_similarity t trial1 trial2) = None"
    and "fst (get_node_neighbors t trial1) = {}"
    and "fst (get_node_neighbors t trial2) = {}"
  shows "compute_optimized_jaccard t trial1 trial2 community_members intermediate_sims
         = (0, create_similarity_relationship
                 (t\<lparr>calls := calls t @ [Get_cached_similarity trial1 trial2,
                                          Get_node_neighbors trial1, Get_node_neighbors trial2]\<rparr>)
                 trial1 trial2 0)"
  using assms
  by (simp add: compute_optimized_jaccard_def get_cached_similarity_def get_node_neighbors_def run_def)


theorem empty_union_scores_zero_witness:
  "fst (get_cached_similarity bare_tx ''C'' ''D'') = None
   \<and> fst (get_node_neighbors bare_tx ''C'') = {}
   \<and> fst (get_node_neighbors bare_tx ''D'') = {}
   \<and> compute_optimized_jaccard bare_tx ''C'' ''D'' [''D'', ''M''] Map.empty
       = (0, create_similarity_relationship
               (bare_tx\<lparr>calls := calls bare_tx @ [Get_cached_similarity ''C'' ''D'',
                                  Get_node_neighbors ''C'', Get_node_neighbors ''D'']\<rparr>)
               ''C'' ''D'' 0)
   \<and> fst (get_cached_similarity bare_tx ''C'' ''M'') = Some (1 / 2)
   \<and> fst (get_cached_similarity bare_tx ''D'' ''M'') = Some (1 / 2)"
proof -
  have miss: "fst (get_cached_similarity bare_tx ''C'' ''D'') = None"
    by (simp add: example_defs query_defs)
  have nc: "fst (get_node_neighbors bare_tx ''C'') = {}"
    by (simp add: example_defs query_defs)
  have nd: "fst (get_node_neighbors bare_tx ''D'') = {}"
    by (simp add: example_defs query_defs)
  have cm: "fst (get_cached_similarity bare_tx ''C'' ''M'') = Some (1 / 2)"
    by (simp add: example_defs query_defs)
  have dm: "fst (get_cached_similarity bare_tx ''D'' ''M'') = Some (1 / 2)"
    by (simp add: example_defs query_defs)
  show ?thesis
    using miss nc nd cm dm
      empty_union_scores_zero [OF miss nc nd, of "[''D'', ''M'']" Map.empty]
    by simp
qed

subsection \<open>The loop of the boost term\<close>

lemma fst_get_cached_similarity:
  "fst (get_cached_similarity t a b) = single (cached_rows (store t) a b)"
  by (simp add: get_cached_similarity_def)

lemma snd_get_cached_similarity:
  "snd (get_cached_similarity t a b) = run t (Get_cached_similarity a b)"
  by (simp add: get_cached_similarity_def)

lemma snd_get_node_neighbors:
  "snd (get_node_neighbors t a) = run t (Get_node_neighbors a)"
  by (simp add: get_node_neighbors_def)

lemma finite_neighbors [simp]: "finite (fst (get_node_neighbors t a))"
  by (simp add: get_node_neighbors_def)

lemma sim_to_first_store:
  "store t' = store t \<Longrightarrow> sim_to_first t' a sims m = sim_to_first t a sims m"
  by (cases "sims m") (simp_all add: sim_to_first_def fst_get_cached_similarity)

lemma boost_sum_store:
  assumes "store t' = store t"
  shows "boost_sum t' a b members sims = boost_sum t a b members sims"
  by (simp add: boost_sum_def sim_to_first_store [OF assms] fst_get_cached_similarity assms)

lemma boost_step_store: "store (snd (boost_step a b sims m (acc, t))) = store t"
  by (simp add: boost_step_def get_cached_similarity_def run_simps split: option.splits)

lemma boost_step_value:
  "fst (boost_step a b sims m (acc, t)) = acc + boost_sum t a b [m] sims"
proof (cases "m = a \<or> m = b")
  case True
  then show ?thesis
    by (auto simp: boost_step_def boost_sum_def)
next
  case False
  show ?thesis
  proof (cases "sim_to_first t a sims m")
    case None
    then show ?thesis
      using False
      by (cases "sims m")
        (simp_all add: boost_step_def boost_sum_def sim_to_first_def get_cached_similarity_def)
  next
    case (Some x)
    show ?thesis
    proof (cases "sims m")
      case None
      with Some have c: "single (cached_rows (store t) a m) = Some x"
        by (simp add: sim_to_first_def fst_get_cached_similarity)
      show ?thesis
        using False None c Some
        by (cases "single (cached_rows (store t) b m)")
          (simp_all add: boost_step_def boost_sum_def get_cached_similarity_def run_simps)
    next
      case (Some v)
      with \<open>sim_to_first t a sims m = Some x\<close> have "v = x"
        by (simp add: sim_to_first_def)
      then show ?thesis
        using False Some \<open>sim_to_first t a sims m = Some x\<close>
        by (cases "single (cached_rows (store t) b m)")
          (simp_all add: boost_step_def boost_sum_def get_cached_similarity_def run_simps)
    qed
  qed
qed

lemma boost_loop_result:
  "store (snd (boost_loop a b sims ms (acc, t))) = store t
   \<and> fst (boost_loop a b sims ms (acc, t)) = acc + boost_sum t a b ms sims"
proof (induction ms arbitrary: acc t)
  case Nil
  then show ?case by (simp add: boost_sum_def)
next
  case (Cons m ms)
  obtain acc' t' where step: "boost_step a b sims m (acc, t) = (acc', t')"
    by (cases "boost_step a b sims m (acc, t)")
  have st: "store t' = store t"
    using boost_step_store [of a b sims m acc t] by (simp add: step)
  have val: "acc' = acc + boost_sum t a b [m] sims"
    using boost_step_value [of a b sims m acc t] by (simp add: step)
  have split: "boost_sum t a b (m # ms) sims = boost_sum t a b [m] sims + boost_sum t a b ms sims"
    by (simp add: boost_sum_def)
  show ?case
    using Cons.IH [of acc' t'] st val
    by (simp only: boost_loop.simps step split boost_sum_store [OF st]) simp
qed

lemma create_store:
  "store t' = store t \<Longrightarrow>
   store (create_similarity_relationship t' a b s) = store (create_similarity_relationship t a b s)"
  by (simp add: create_similarity_relationship_def run_simps)

lemma create_calls:
  "calls (create_similarity_relationship t a b s) = calls t @ [Create_similarity_relationship a b s]"
  by (simp add: create_similarity_relationship_def run_simps)

text \<open>What a call computes, writes and runs last on a cache miss.\<close>

lemma compute_miss:
  assumes "fst (get_cached_similarity t a b) = None"
  shows "fst (compute_optimized_jaccard t a b members sims) =
           (if card (fst (get_node_neighbors t a) \<union> fst (get_node_neighbors t b)) = 0 then 0
            else min 1 (real (card (fst (get_node_neighbors t a) \<inter> fst (get_node_neighbors t b)))
                        / real (card (fst (get_node_neighbors t a) \<union> fst (get_node_neighbors t b)))
                        + boost_sum t a b members sims))
       \<and> store (snd (compute_optimized_jaccard t a b members sims)) =
           store (create_similarity_relationship t a b (fst (compute_optimized_jaccard t a b members sims)))
       \<and> last (calls (snd (compute_optimized_jaccard t a b members sims))) =
           Create_similarity_relationship a b (fst (compute_optimized_jaccard t a b members sims))"
proof -
  let ?t3 = "run (run (run t (Get_cached_similarity a b)) (Get_node_neighbors a)) (Get_node_neighbors b)"
  have st3: "store ?t3 = store t"
    by (simp add: run_simps)
  have loop: "store (snd (boost_loop a b sims members (0, ?t3))) = store t"
    "fst (boost_loop a b sims members (0, ?t3)) = boost_sum t a b members sims"
    using boost_loop_result [of a b sims members 0 ?t3]
    by (simp_all add: boost_sum_store [OF st3] run_simps)
  show ?thesis
    using assms
    by (simp add: compute_optimized_jaccard_def case_prod_beta snd_get_cached_similarity
        snd_get_node_neighbors loop create_store [OF st3] create_store [OF loop(1)] create_calls)
qed



subsection \<open>Boundedness\<close>

lemma boost_sum_nonneg:
  assumes "\<forall>m \<in> set members. m \<noteq> a \<and> m \<noteq> b \<longrightarrow>
             (\<forall>v. sim_to_first t a sims m = Some v \<or> fst (get_cached_similarity t b m) = Some v
                  \<longrightarrow> 0 \<le> v \<and> v \<le> 1)"
  shows "0 \<le> boost_sum t a b members sims"
  unfolding boost_sum_def
proof (rule sum_list_nonneg)
  fix x
  assume "x \<in> set (map (\<lambda>m. min (the (sim_to_first t a sims m))
                             (the (fst (get_cached_similarity t b m))) * (1 / 10))
                  (filter (\<lambda>m. m \<noteq> a \<and> m \<noteq> b \<and> sim_to_first t a sims m \<noteq> None
                                \<and> fst (get_cached_similarity t b m) \<noteq> None) members))"
  then obtain m where m: "m \<in> set members" "m \<noteq> a" "m \<noteq> b"
      "sim_to_first t a sims m \<noteq> None" "fst (get_cached_similarity t b m) \<noteq> None"
      and x: "x = min (the (sim_to_first t a sims m)) (the (fst (get_cached_similarity t b m))) * (1 / 10)"
    by auto
  from m obtain u w where uw: "sim_to_first t a sims m = Some u" "fst (get_cached_similarity t b m) = Some w"
    by auto
  with assms m have "0 \<le> u" "0 \<le> w"
    by blast+
  then show "0 \<le> x"
    by (simp add: x uw)
qed

lemma create_scores_bounded:
  assumes "scores_bounded (store t)" and "0 \<le> s" and "s \<le> 1"
  shows "scores_bounded (store (create_similarity_relationship t a b s))"
  using assms
  by (auto simp: scores_bounded_def create_similarity_relationship_def run_simps
      dest!: fold_write_pair_old_or_new)

text \<open>
  C4. When every previously cached score the boost term consults lies in [0, 1],
  the score a cache miss produces lies in [0, 1] too; and when all scores of the
  store were in [0, 1] before the call, they all are after it, the new one
  included.
\<close>

theorem computed_score_bounded:
  assumes miss: "fst (get_cached_similarity t a b) = None"
    and consulted: "\<forall>m \<in> set members. m \<noteq> a \<and> m \<noteq> b \<longrightarrow>
             (\<forall>v. sim_to_first t a sims m = Some v \<or> fst (get_cached_similarity t b m) = Some v
                  \<longrightarrow> 0 \<le> v \<and> v \<le> 1)"
  shows "0 \<le> fst (compute_optimized_jaccard t a b members sims)
       \<and> fst (compute_optimized_jaccard t a b members sims) \<le> 1
       \<and> (scores_bounded (store t) \<longrightarrow>
            scores_bounded (store (snd (compute_optimized_jaccard t a b members sims))))"
proof -
  let ?r = "compute_optimized_jaccard t a b members sims"
  have b: "0 \<le> boost_sum t a b members sims"
    by (rule boost_sum_nonneg [OF consulted])
  have range: "0 \<le> fst ?r \<and> fst ?r \<le> 1"
    using compute_miss [OF miss, of members sims] b by (auto simp: min_def)
  moreover have "scores_bounded (store (snd ?r))" if "scores_bounded (store t)"
    using compute_miss [OF miss, of members sims] create_scores_bounded [OF that, of "fst ?r" a b] range
    by simp
  ultimately show ?thesis by blast
qed

theorem computed_score_bounded_witness:
  "fst (get_cached_similarity boost_tx ''A'' ''B'') = None
   \<and> 0 \<le> fst (compute_optimized_jaccard boost_tx ''A'' ''B'' [''B'', ''M''] [''M'' \<mapsto> 1 / 2])
   \<and> fst (compute_optimized_jaccard boost_tx ''A'' ''B'' [''B'', ''M''] [''M'' \<mapsto> 1 / 2]) \<le> 1
   \<and> scores_bounded (store boost_tx)
   \<and> scores_bounded
       (store (snd (compute_optimized_jaccard boost_tx ''A'' ''B'' [''B'', ''M''] [''M'' \<mapsto> 1 / 2])))"
proof -
  have miss: "fst (get_cached_similarity boost_tx ''A'' ''B'') = None"
    by (simp add: example_defs query_defs)
  have bm: "fst (get_cached_similarity boost_tx ''B'' ''M'') = Some (3 / 10)"
    by (simp add: example_defs query_defs)
  have am: "sim_to_first boost_tx ''A'' [''M'' \<mapsto> 1 / 2] ''M'' = Some (1 / 2)"
    by (simp add: sim_to_first_def)
  have consulted: "\<forall>m \<in> set [''B'', ''M'']. m \<noteq> ''A'' \<and> m \<noteq> ''B'' \<longrightarrow>
      (\<forall>v. sim_to_first boost_tx ''A'' [''M'' \<mapsto> 1 / 2] m = Some v
            \<or> fst (get_cached_similarity boost_tx ''B'' m) = Some v \<longrightarrow> 0 \<le> v \<and> v \<le> 1)"
    by (auto simp: am bm)
  have inv: "scores_bounded (store boost_tx)"
    by (simp add: scores_bounded_def example_defs)
  show ?thesis
    using miss inv computed_score_bounded [OF miss consulted] by simp
qed

section \<open>The ranker\<close>

lemma fst_get_node_community:
  "fst (get_node_community t trial_id) =
     (case single (community_rows (store t) trial_id) of None \<Rightarrow> None | Some c \<Rightarrow> c)"
  by (simp add: get_node_community_def)

text \<open>
  C7. When the community lookup of the query entity yields \<^verbatim>\<open>None\<close>, the ranker
  returns the empty list (the source returns it, it raises nothing). The store is
  untouched and the community lookup is the only query run: nothing is scored and
  nothing is written.
\<close>

theorem no_community_empty_result:
  assumes "fst (get_node_community t trial_id) = None"
  shows "find_similar_trials_optimized t trial_id top_k
         = ([], t\<lparr>calls := calls t @ [Get_node_community trial_id]\<rparr>)"
  using assms by (simp add: find_similar_trials_optimized_def get_node_community_def run_def)

theorem no_community_empty_result_witness:
  "fst (get_node_community bare_tx ''E'') = None
   \<and> find_similar_trials_optimized bare_tx ''E'' 10
       = ([], bare_tx\<lparr>calls := calls bare_tx @ [Get_node_community ''E'']\<rparr>)"
proof -
  have h: "fst (get_node_community bare_tx ''E'') = None"
    by (simp add: example_defs query_defs)
  show ?thesis
    using h no_community_empty_result [OF h, of 10] by simp
qed

subsection \<open>The scoring loop and the sort\<close>











lemmas pipeline_defs =
  find_similar_trials_optimized_def candidate_members_def compute_optimized_jaccard_def
  boost_step_def create_similarity_relationship_def write_pair_def merge_set_def
  sort_reverse_def slice_to_def


lemma cold_query_A:
  "fst (find_similar_trials_optimized cold_tx ''A'' 10)
     = [\<lparr>trial = ''B'', similarity = 1 / 3\<rparr>, \<lparr>trial = ''C'', similarity = 0\<rparr>]"
  by (simp add: example_defs query_defs pipeline_defs card_insert_if)



subsection \<open>Self-exclusion\<close>

lemma comprehension_map_filter:
  "concat (map (\<lambda>x. if P x then [f x] else []) xs) = map f (filter P xs)"
  by (induction xs) simp_all





section \<open>The existence check against the query\<close>

lemma dropWhile_same_length:
  assumes "length (dropWhile P xs) = length xs"
  shows "dropWhile P xs = xs"
proof -
  have "length (takeWhile P xs) + length (dropWhile P xs) = length xs"
    by (metis length_append takeWhile_dropWhile_id)
  with assms have "takeWhile P xs = []"
    by simp
  then show ?thesis
    by (metis append_Nil takeWhile_dropWhile_id)
qed

lemma stripped_ends:
  assumes "strip s = s"
  shows "s = [] \<or> (\<not> isspace (hd s) \<and> \<not> isspace (last s))"
proof -
  let ?z = "dropWhile isspace s"
  let ?w = "dropWhile isspace (rev ?z)"
  have "length s = length ?w"
    using assms by (metis length_rev strip_def)
  moreover have "length ?w \<le> length ?z"
    by (metis length_dropWhile_le length_rev)
  moreover have "length ?z \<le> length s"
    by (rule length_dropWhile_le)
  ultimately have lz: "length ?z = length s" and lw: "length ?w = length (rev ?z)"
    by simp_all
  have z: "?z = s"
    by (rule dropWhile_same_length [OF lz])
  have "?w = rev ?z"
    by (rule dropWhile_same_length [OF lw])
  then have w: "dropWhile isspace (rev s) = rev s"
    by (simp only: z)
  show ?thesis
  proof (cases "s = []")
    case True
    then show ?thesis by simp
  next
    case False
    from z False have "\<not> isspace (hd s)"
      by (simp add: dropWhile_eq_self_iff)
    moreover from w False have "\<not> isspace (last s)"
      by (simp add: dropWhile_eq_self_iff hd_rev)
    ultimately show ?thesis by simp
  qed
qed

lemma strip_padded:
  assumes nm: "strip nm = nm" and pad: "\<forall>c \<in> set (pre @ post). isspace c"
  shows "strip (pre @ nm @ post) = nm"
proof (cases "nm = []")
  case True
  have d: "dropWhile isspace (pre @ post) = []"
    by (metis dropWhile_eq_Nil_conv pad)
  show ?thesis
    unfolding strip_def True by (simp only: append_Nil d rev.simps dropWhile.simps)
next
  case False
  from stripped_ends [OF nm] False have h: "\<not> isspace (hd nm)" and l: "\<not> isspace (last nm)"
    by simp_all
  have "dropWhile isspace (pre @ nm @ post) = dropWhile isspace (nm @ post)"
    using pad by simp
  also have "\<dots> = nm @ post"
    using False h by (simp add: dropWhile_eq_self_iff)
  finally have front: "dropWhile isspace (pre @ nm @ post) = nm @ post" .
  have "\<And>c. c \<in> set (rev post) \<Longrightarrow> isspace c"
    using pad by simp
  then have "dropWhile isspace (rev post @ rev nm) = dropWhile isspace (rev nm)"
    by (rule dropWhile_append2)
  then have "dropWhile isspace (rev (nm @ post)) = dropWhile isspace (rev nm)"
    by (simp only: rev_append)
  also have "\<dots> = rev nm"
    using False l by (simp add: dropWhile_eq_self_iff hd_rev)
  finally show ?thesis
    by (simp add: strip_def front)
qed

lemma isWhitespace_isspace: "isWhitespace c \<Longrightarrow> isspace c"
  by (auto simp: isWhitespace_def isspace_def)

lemma TRIM_stripped:
  assumes "strip s = s"
  shows "TRIM s = s"
proof (cases "s = []")
  case True
  then show ?thesis by (simp add: TRIM_def)
next
  case False
  from stripped_ends [OF assms] False have "\<not> isWhitespace (hd s)" and "\<not> isWhitespace (last s)"
    by (auto dest: isWhitespace_isspace)
  then have "dropWhile isWhitespace s = s" and "dropWhile isWhitespace (rev s) = rev s"
    using False by (simp_all add: dropWhile_eq_self_iff hd_rev)
  then show ?thesis
    by (simp add: TRIM_def)
qed

lemma subject_ids_empty_iff:
  "subject_ids g t = [] \<longleftrightarrow> (\<forall>n \<in> set (nodes g). \<not> (label n = SubjectNode \<and> name n = t))"
proof -
  have "subject_ids g t = [] \<longleftrightarrow> (\<forall>i < length (nodes g). \<not> is_subject g i t)"
    by (auto simp: subject_ids_def filter_empty_conv)
  also have "\<dots> \<longleftrightarrow> (\<forall>i < length (nodes g).
      \<not> (label (nodes g ! i) = SubjectNode \<and> name (nodes g ! i) = t))"
    by (simp add: is_subject_def)
  also have "\<dots> \<longleftrightarrow> (\<forall>n \<in> set (nodes g). \<not> (label n = SubjectNode \<and> name n = t))"
    by (simp only: all_set_conv_all_nth)
  finally show ?thesis .
qed

lemma check_node_exists_subject:
  "fst (check_node_exists t node_name SubjectNode)
     \<longleftrightarrow> subject_ids (store t) (TRIM (strip node_name)) \<noteq> []"
  by (auto simp: check_node_exists_def exists_rows_def subject_ids_empty_iff filter_empty_conv)

lemma no_subject_no_community:
  assumes "subject_ids (store t) trial_id = []"
  shows "fst (get_node_community t trial_id) = None"
proof -
  have "community_rows (store t) trial_id = []"
    using assms
    by (simp add: community_rows_def comprehension_map_filter subject_ids_empty_iff filter_empty_conv)
  then show ?thesis
    by (simp add: get_node_community_def single_def)
qed

text \<open>
  C10, as the code has it. The existence check trims only its parameter (in Python,
  then in the query) and compares the result with the stored names as they are;
  the ranking uses the identifier as typed. So for an input that is the name of an
  existing subject, itself without surrounding whitespace, padded with whitespace,
  and provided no subject carries the padded string as its name: the existence
  check of \<^verbatim>\<open>main\<close> succeeds, the community lookup matches no node, and \<^verbatim>\<open>main\<close>
  gets the empty list and prints that no similar trials were found.
\<close>

theorem padded_identifier_finds_nothing:
  assumes existing: "subject_ids (store t) nm \<noteq> []"
    and stripped: "strip nm = nm"
    and padding: "\<forall>c \<in> set (pre @ post). isspace c"
    and unnamed: "subject_ids (store t) (pre @ nm @ post) = []"
  shows "fst (check_node_exists t (pre @ nm @ post) SubjectNode)
       \<and> fst (get_node_community (snd (check_node_exists t (pre @ nm @ post) SubjectNode))
                 (pre @ nm @ post)) = None
       \<and> main t (pre @ nm @ post)
           = (No_similar_trials_found,
              t\<lparr>calls := calls t @ [Check_node_exists nm SubjectNode,
                                       Get_node_community (pre @ nm @ post)]\<rparr>)"
proof -
  let ?input = "pre @ nm @ post"
  have s: "strip ?input = nm"
    by (rule strip_padded [OF stripped padding])
  have found: "fst (check_node_exists t ?input SubjectNode)"
    using existing by (simp add: check_node_exists_subject s TRIM_stripped [OF stripped])
  have t1: "snd (check_node_exists t ?input SubjectNode) = run t (Check_node_exists nm SubjectNode)"
    by (simp add: check_node_exists_def s)
  have none: "fst (get_node_community (run t (Check_node_exists nm SubjectNode)) ?input) = None"
    by (rule no_subject_no_community) (simp add: run_simps unnamed)
  have "find_similar_trials_optimized (run t (Check_node_exists nm SubjectNode)) ?input 10
        = ([], run (run t (Check_node_exists nm SubjectNode)) (Get_node_community ?input))"
    using none by (simp add: find_similar_trials_optimized_def get_node_community_def)
  then have "main t ?input
      = (No_similar_trials_found, run (run t (Check_node_exists nm SubjectNode)) (Get_node_community ?input))"
    using found t1 by (simp add: main_def case_prod_beta)
  then show ?thesis
    using found none by (simp add: t1 run_def)
qed

theorem padded_identifier_finds_nothing_witness:
  "subject_ids (store cold_tx) ''A'' \<noteq> []
   \<and> strip ''A'' = ''A''
   \<and> subject_ids (store cold_tx) ('' '' @ ''A'' @ ''  '') = []
   \<and> fst (check_node_exists cold_tx '' A  '' SubjectNode)
   \<and> main cold_tx '' A  ''
       = (No_similar_trials_found,
          cold_tx\<lparr>calls := calls cold_tx @ [Check_node_exists ''A'' SubjectNode,
                                             Get_node_community '' A  '']\<rparr>)
   \<and> fst (main cold_tx ''A'')
       = Top_similar_trials [\<lparr>trial = ''B'', similarity = 1 / 3\<rparr>, \<lparr>trial = ''C'', similarity = 0\<rparr>]"
proof -
  have e: "subject_ids (store cold_tx) ''A'' \<noteq> []"
    by (simp add: example_defs query_defs)
  have s: "strip ''A'' = ''A''"
    by (simp add: strip_def isspace_def)
  have p: "\<forall>c \<in> set ('' '' @ ''  ''). isspace c"
    by (simp add: isspace_def)
  have u: "subject_ids (store cold_tx) ('' '' @ ''A'' @ ''  '') = []"
    by (simp add: example_defs query_defs)
  have m: "fst (main cold_tx ''A'')
       = Top_similar_trials [\<lparr>trial = ''B'', similarity = 1 / 3\<rparr>, \<lparr>trial = ''C'', similarity = 0\<rparr>]"
    by (simp add: main_def check_node_exists_def exists_rows_def strip_def TRIM_def isspace_def
        isWhitespace_def example_defs query_defs pipeline_defs card_insert_if)
  show ?thesis
    using e s u m padded_identifier_finds_nothing [OF e s p u] by simp
qed

text \<open>
  The claim C10 as stated fails on a store that holds \<open>T1\<close> and, under padded names,
  \<open>T1\<close> and \<open>T2\<close> with a leading blank. The input \<open>T1\<close> with a leading blank is an
  existing name surrounded by whitespace and passes the existence check, yet the
  community lookup matches the node that carries the padded name and the query
  returns entries. And stored names are not trimmed: the subject stored under the
  padded \<open>T2\<close> fails the existence check, whether typed as stored or with more
  padding.
\<close>

theorem padded_identifier_counterexample:
  "subject_ids (store padded_tx) ''T1'' \<noteq> []
   \<and> fst (check_node_exists padded_tx '' T1'' SubjectNode)
   \<and> fst (get_node_community padded_tx '' T1'') = Some 1
   \<and> fst (main padded_tx '' T1'')
       = Top_similar_trials [\<lparr>trial = ''T1'', similarity = 0\<rparr>, \<lparr>trial = '' T2'', similarity = 0\<rparr>]
   \<and> subject_ids (store padded_tx) '' T2'' \<noteq> []
   \<and> \<not> fst (check_node_exists padded_tx '' T2'' SubjectNode)
   \<and> \<not> fst (check_node_exists padded_tx ''  T2'' SubjectNode)"
  by (simp add: main_def example_defs query_defs pipeline_defs check_node_exists_def exists_rows_def
      strip_def TRIM_def isspace_def isWhitespace_def)

end
